theory Spec2Isabelle
  imports Complex_Main
begin

unbundle bit_operations_syntax

section \<open>JavaScript numbers\<close>

text \<open>
  A JavaScript number is modelled as an exact real, or one of the three special values
  \<open>Infinity\<close>, \<open>-Infinity\<close> and \<open>NaN\<close>. Finite arithmetic is exact: rounding,
  overflow and underflow of IEEE doubles are not modelled. The special values follow the
  IEEE rules the program can reach: \<open>0 / 0\<close>, \<open>Infinity - Infinity\<close> and
  \<open>0 * Infinity\<close> are \<open>NaN\<close>, every operation on \<open>NaN\<close> is \<open>NaN\<close>, and a nonzero
  number divided by zero is an infinity. Zero carries no sign: every zero divisor the
  program can build (\<open>maxRaw - minRaw\<close> of equal values, \<open>2 * r * r\<close>) is \<open>+0\<close>.
\<close>

datatype jsnum = Fin real | PInf | NInf | NaN

fun js_neg :: "jsnum \<Rightarrow> jsnum" where
  "js_neg (Fin x) = Fin (- x)"
| "js_neg PInf = NInf"
| "js_neg NInf = PInf"
| "js_neg NaN = NaN"

fun js_add :: "jsnum \<Rightarrow> jsnum \<Rightarrow> jsnum" where
  "js_add (Fin x) (Fin y) = Fin (x + y)"
| "js_add (Fin x) PInf = PInf"
| "js_add (Fin x) NInf = NInf"
| "js_add PInf (Fin y) = PInf"
| "js_add PInf PInf = PInf"
| "js_add PInf NInf = NaN"
| "js_add NInf (Fin y) = NInf"
| "js_add NInf NInf = NInf"
| "js_add NInf PInf = NaN"
| "js_add NaN b = NaN"
| "js_add a NaN = NaN"

definition js_sub :: "jsnum \<Rightarrow> jsnum \<Rightarrow> jsnum" where
  "js_sub a b = js_add a (js_neg b)"

text \<open>The sign of an infinite product or quotient: that of the finite operand.\<close>

definition signed_inf :: "bool \<Rightarrow> jsnum" where
  "signed_inf positive = (if positive then PInf else NInf)"

fun js_mul :: "jsnum \<Rightarrow> jsnum \<Rightarrow> jsnum" where
  "js_mul (Fin x) (Fin y) = Fin (x * y)"
| "js_mul (Fin x) PInf = (if x = 0 then NaN else signed_inf (0 < x))"
| "js_mul (Fin x) NInf = (if x = 0 then NaN else signed_inf (x < 0))"
| "js_mul PInf (Fin y) = (if y = 0 then NaN else signed_inf (0 < y))"
| "js_mul NInf (Fin y) = (if y = 0 then NaN else signed_inf (y < 0))"
| "js_mul PInf PInf = PInf"
| "js_mul PInf NInf = NInf"
| "js_mul NInf PInf = NInf"
| "js_mul NInf NInf = PInf"
| "js_mul NaN b = NaN"
| "js_mul a NaN = NaN"

fun js_div :: "jsnum \<Rightarrow> jsnum \<Rightarrow> jsnum" where
  "js_div (Fin x) (Fin y) =
     (if y = 0 then (if x = 0 then NaN else signed_inf (0 < x)) else Fin (x / y))"
| "js_div (Fin x) PInf = Fin 0"
| "js_div (Fin x) NInf = Fin 0"
| "js_div PInf (Fin y) = signed_inf (0 \<le> y)"
| "js_div NInf (Fin y) = signed_inf (y < 0)"
| "js_div PInf PInf = NaN"
| "js_div PInf NInf = NaN"
| "js_div NInf PInf = NaN"
| "js_div NInf NInf = NaN"
| "js_div NaN b = NaN"
| "js_div a NaN = NaN"

text \<open>\<open>Math.exp\<close>.\<close>

fun js_exp :: "jsnum \<Rightarrow> jsnum" where
  "js_exp (Fin x) = Fin (exp x)"
| "js_exp PInf = PInf"
| "js_exp NInf = Fin 0"
| "js_exp NaN = NaN"

text \<open>\<open>Math.min\<close> and \<open>Math.max\<close> of two arguments: \<open>NaN\<close> when either is.\<close>

fun js_min :: "jsnum \<Rightarrow> jsnum \<Rightarrow> jsnum" where
  "js_min (Fin x) (Fin y) = Fin (min x y)"
| "js_min (Fin x) PInf = Fin x"
| "js_min (Fin x) NInf = NInf"
| "js_min PInf (Fin y) = Fin y"
| "js_min PInf PInf = PInf"
| "js_min PInf NInf = NInf"
| "js_min NInf (Fin y) = NInf"
| "js_min NInf PInf = NInf"
| "js_min NInf NInf = NInf"
| "js_min NaN b = NaN"
| "js_min a NaN = NaN"

fun js_max :: "jsnum \<Rightarrow> jsnum \<Rightarrow> jsnum" where
  "js_max (Fin x) (Fin y) = Fin (max x y)"
| "js_max (Fin x) PInf = PInf"
| "js_max (Fin x) NInf = Fin x"
| "js_max PInf (Fin y) = PInf"
| "js_max PInf PInf = PInf"
| "js_max PInf NInf = PInf"
| "js_max NInf (Fin y) = Fin y"
| "js_max NInf PInf = PInf"
| "js_max NInf NInf = NInf"
| "js_max NaN b = NaN"
| "js_max a NaN = NaN"

text \<open>
  \<open>Math.min(...xs)\<close> and \<open>Math.max(...xs)\<close>: the spread of an array. With no argument
  they are \<open>Infinity\<close> and \<open>-Infinity\<close>.
\<close>

definition js_min_list :: "jsnum list \<Rightarrow> jsnum" where
  "js_min_list xs = foldl js_min PInf xs"

definition js_max_list :: "jsnum list \<Rightarrow> jsnum" where
  "js_max_list xs = foldl js_max NInf xs"

text \<open>\<open>Math.round\<close>: the integer nearest to the argument, halves rounded up.\<close>

fun js_round :: "jsnum \<Rightarrow> jsnum" where
  "js_round (Fin x) = Fin (of_int \<lfloor>x + 1 / 2\<rfloor>)"
| "js_round PInf = PInf"
| "js_round NInf = NInf"
| "js_round NaN = NaN"

text \<open>A score is valid when it is a number of the closed unit interval.\<close>

fun in01 :: "jsnum \<Rightarrow> bool" where
  "in01 (Fin x) = (0 \<le> x \<and> x \<le> 1)"
| "in01 PInf = False"
| "in01 NInf = False"
| "in01 NaN = False"

section \<open>The seeded generator\<close>

text \<open>
  \<open>ToInt32\<close> and \<open>ToUint32\<close> of an integral number. The register \<open>s\<close> of the generator
  is an integer: after the first call it is a signed 32-bit value, and
  \<open>s * 1664525 + 1013904223\<close> then stays below \<open>2^53\<close>, where doubles are exact.
\<close>

definition toInt32 :: "int \<Rightarrow> int" where
  "toInt32 x = (x + 2 ^ 31) mod 2 ^ 32 - 2 ^ 31"

definition toUint32 :: "int \<Rightarrow> int" where
  "toUint32 x = x mod 2 ^ 32"

text \<open>The operator \<open>&\<close>: both operands through \<open>ToInt32\<close>, then bitwise and.\<close>

definition js_bitand :: "int \<Rightarrow> int \<Rightarrow> int" where
  "js_bitand a b = toInt32 a AND toInt32 b"

text \<open>
  \<open>seededRandom(seed)\<close> returns a closure over the register \<open>s\<close>, which starts at the
  seed. The closure is modelled by its register; \<open>rand\<close> is one call of the closure: it
  returns the value drawn and the register it leaves.
\<close>

definition seededRandom :: "int \<Rightarrow> int" where
  "seededRandom seed = seed"

definition rand :: "int \<Rightarrow> jsnum \<times> int" where
  "rand s =
     (let s' = js_bitand (s * 1664525 + 1013904223) 4294967295
      in (js_div (Fin (of_int (toUint32 s'))) (Fin 4294967295), s'))"

section \<open>Configuration\<close>

definition TEXAS_POLYGON :: "(real \<times> real) list" where
  "TEXAS_POLYGON =
    [(31.901, -106.645646), (31.784, -106.528879), (31.562, -106.277244),
     (30.84, -105.4), (29.672, -104.977665), (29.45, -104.561), (28.98, -103.941),
     (28.97, -103.118), (29.76, -102.48), (29.77, -101.66), (28.19, -100.96),
     (28.17, -100.11), (27.66, -99.93), (27.02, -99.44), (26.38, -99.45),
     (26.43, -99.1), (26.07, -98.08), (25.87, -97.36), (25.97, -97.14),
     (26.06, -97.02), (28.3, -96.7), (28.6, -96.8), (28.97, -95.96),
     (29.08, -94.74), (29.72, -93.84), (30.05, -93.93), (30.13, -93.7),
     (31.0, -93.7), (31.56, -93.52), (33.0, -93.53), (33.552, -94.043),
     (33.638, -94.484), (33.937, -95.154), (33.778, -96.0), (33.985, -96.66),
     (33.853, -97.46), (34.0, -98.0), (34.21, -98.95), (34.41, -99.57),
     (34.56, -100.0), (36.5, -100.0), (36.5, -103.0), (32.0, -103.0),
     (31.901, -106.645646)]"

record source =
  lat :: real
  lng :: real
  weight :: real
  radLat :: real
  radLng :: real

definition SUPPLY_SOURCES :: "source list" where
  "SUPPLY_SOURCES =
    [\<lparr>lat = 36.1, lng = -101.5, weight = 0.98, radLat = 1.4, radLng = 2.2\<rparr>,
     \<lparr>lat = 32.264, lng = -100.344, weight = 0.95, radLat = 2.5, radLng = 1.2\<rparr>,
     \<lparr>lat = 32.25, lng = -101.5, weight = 0.75, radLat = 1.8, radLng = 1.0\<rparr>,
     \<lparr>lat = 26.5, lng = -97.5, weight = 0.75, radLat = 0.8, radLng = 1.4\<rparr>,
     \<lparr>lat = 28.1, lng = -97.4, weight = 0.55, radLat = 0.7, radLng = 1.1\<rparr>,
     \<lparr>lat = 32.298, lng = -97.786, weight = 1.0, radLat = 0.45, radLng = 0.45\<rparr>,
     \<lparr>lat = 28.795, lng = -96.048, weight = 1.0, radLat = 0.45, radLng = 0.45\<rparr>,
     \<lparr>lat = 31.8, lng = -103.2, weight = 0.85, radLat = 1.5, radLng = 1.5\<rparr>,
     \<lparr>lat = 31.9, lng = -102.1, weight = 0.72, radLat = 1.2, radLng = 1.2\<rparr>,
     \<lparr>lat = 35.22, lng = -101.8, weight = 0.88, radLat = 1.0, radLng = 1.0\<rparr>,
     \<lparr>lat = 32.261, lng = -94.565, weight = 0.88, radLat = 0.6, radLng = 0.6\<rparr>,
     \<lparr>lat = 32.1, lng = -94.5, weight = 0.72, radLat = 1.8, radLng = 0.8\<rparr>,
     \<lparr>lat = 32.314, lng = -102.51, weight = 0.60, radLat = 0.9, radLng = 0.9\<rparr>,
     \<lparr>lat = 31.05, lng = -103.7, weight = 0.48, radLat = 0.8, radLng = 0.8\<rparr>,
     \<lparr>lat = 31.5, lng = -103.0, weight = 0.65, radLat = 1.8, radLng = 1.4\<rparr>]"

definition DEMAND_SINKS :: "source list" where
  "DEMAND_SINKS =
    [\<lparr>lat = 29.749, lng = -95.358, weight = -1.0, radLat = 1.4, radLng = 1.4\<rparr>,
     \<lparr>lat = 32.779, lng = -96.809, weight = -0.95, radLat = 1.1, radLng = 1.1\<rparr>,
     \<lparr>lat = 32.725, lng = -97.321, weight = -0.80, radLat = 0.9, radLng = 0.9\<rparr>,
     \<lparr>lat = 29.424, lng = -98.491, weight = -0.92, radLat = 1.1, radLng = 1.1\<rparr>,
     \<lparr>lat = 30.267, lng = -97.743, weight = -0.85, radLat = 0.9, radLng = 0.9\<rparr>,
     \<lparr>lat = 31.772, lng = -106.461, weight = -0.65, radLat = 0.7, radLng = 0.7\<rparr>,
     \<lparr>lat = 27.801, lng = -97.396, weight = -0.50, radLat = 0.6, radLng = 0.6\<rparr>,
     \<lparr>lat = 31.923, lng = -102.222, weight = -0.52, radLat = 0.6, radLng = 0.6\<rparr>,
     \<lparr>lat = 33.577, lng = -101.855, weight = -0.48, radLat = 0.55, radLng = 0.55\<rparr>,
     \<lparr>lat = 35.222, lng = -101.831, weight = -0.48, radLat = 0.55, radLng = 0.55\<rparr>,
     \<lparr>lat = 30.068, lng = -94.130, weight = -0.40, radLat = 0.6, radLng = 0.6\<rparr>,
     \<lparr>lat = 31.549, lng = -97.147, weight = -0.35, radLat = 0.5, radLng = 0.5\<rparr>,
     \<lparr>lat = 32.735, lng = -97.108, weight = -0.35, radLat = 0.5, radLng = 0.5\<rparr>]"

definition LAT_MIN :: real where "LAT_MIN = 25.8"
definition LAT_MAX :: real where "LAT_MAX = 36.5"
definition LNG_MIN :: real where "LNG_MIN = -106.6"
definition LNG_MAX :: real where "LNG_MAX = -93.5"

section \<open>The influence model\<close>

definition anisotropicGaussian :: "real \<Rightarrow> real \<Rightarrow> source \<Rightarrow> jsnum" where
  "anisotropicGaussian cellLat cellLng src =
     (let dlat = js_sub (Fin cellLat) (Fin (lat src));
          dlng = js_sub (Fin cellLng) (Fin (lng src))
      in js_mul (Fin (weight src))
           (js_exp (js_neg (js_add
              (js_div (js_mul dlat dlat)
                 (js_mul (js_mul (Fin 2) (Fin (radLat src))) (Fin (radLat src))))
              (js_div (js_mul dlng dlng)
                 (js_mul (js_mul (Fin 2) (Fin (radLng src))) (Fin (radLng src))))))))"

text \<open>
  The body of the first pass of \<open>generateTexasHexData\<close>: \<open>score\<close> starts at 0 and each
  supply source, then each demand sink, adds its contribution, in list order. The two
  tables are parameters here; the builder passes \<open>SUPPLY_SOURCES\<close> and \<open>DEMAND_SINKS\<close>.
\<close>

definition rawScore :: "source list \<Rightarrow> source list \<Rightarrow> real \<Rightarrow> real \<Rightarrow> jsnum" where
  "rawScore supply sinks cellLat cellLng =
     foldl (\<lambda>score sink. js_add score (anisotropicGaussian cellLat cellLng sink))
       (foldl (\<lambda>score src. js_add score (anisotropicGaussian cellLat cellLng src))
          (Fin 0) supply)
       sinks"

section \<open>The hexagonal grid\<close>

text \<open>
  The library \<open>h3-js\<close> is not part of the program: its two functions are parameters. A
  cell identifier is a string. \<open>polygonToCells\<close> may throw (an invalid resolution);
  the builders do not catch, so the exception leaves them unchanged. \<open>cellToLatLng\<close>
  is only called on identifiers that \<open>polygonToCells\<close> returned and yields finite
  coordinates. Both are functions of their arguments: the library is deterministic, so the
  two calls of \<open>polygonToCells\<close> inside \<open>generateTexasCombinedData\<close> get one answer.
\<close>

datatype error = H3Error | TypeError

type_synonym h3index = string

record h3 =
  polygonToCells :: "(real \<times> real) list \<Rightarrow> int \<Rightarrow> error + h3index list"
  cellToLatLng :: "h3index \<Rightarrow> real \<times> real"

section \<open>The field builders\<close>

text \<open>
  The three builders take the library and the resolution; a call that omits the
  resolution passes the default 5. Their records are the object literals of the source:
  \<open>{h3Index, score, surplusMwh}\<close>, \<open>{h3Index, score, tempF}\<close> and
  \<open>{h3Index, score, surplusMwh, tempF}\<close>.
\<close>

record scored =
  h3Index :: h3index
  score :: jsnum

record surplus_cell = scored +
  surplusMwh :: jsnum

record temperature_cell = scored +
  tempF :: jsnum

record combined_cell = surplus_cell +
  tempF :: jsnum

text \<open>
  The expression \<open>Math.max(...raw) - Math.min(...raw)\<close>, the \<open>range\<close> of both
  \<open>generateTexasHexData\<close> and \<open>generateTexasCombinedData\<close>, under a name of its own.
\<close>

definition rawRange :: "jsnum list \<Rightarrow> jsnum" where
  "rawRange raw = js_sub (js_max_list raw) (js_min_list raw)"

subsection \<open>\<open>generateTexasTemperatureData\<close>\<close>

text \<open>
  The callback of \<open>cells.map\<close>, folded over the cells from left to right with the
  register of \<open>rand\<close> threaded through; the register left after the last cell is
  returned beside the records.
\<close>

fun temperaturePass :: "h3 \<Rightarrow> int \<Rightarrow> h3index list \<Rightarrow> temperature_cell list \<times> int" where
  "temperaturePass h s [] = ([], s)"
| "temperaturePass h s (c # cells) =
     (case cellToLatLng h c of (cellLat, cellLng) \<Rightarrow>
      let latNorm = js_div (js_sub (Fin cellLat) (Fin LAT_MIN)) (js_sub (Fin LAT_MAX) (Fin LAT_MIN));
          lngNorm = js_div (js_sub (Fin cellLng) (Fin LNG_MIN)) (js_sub (Fin LNG_MAX) (Fin LNG_MIN));
          base = js_add (js_mul (Fin 0.65) (js_sub (Fin 1) latNorm))
                   (js_mul (Fin 0.20) (js_sub (Fin 1) lngNorm))
      in case rand s of (r, s1) \<Rightarrow>
      let noise = js_mul (js_sub r (Fin 0.5)) (Fin 0.12);
          sc = js_max (Fin 0) (js_min (Fin 1) (js_add base noise));
          tF = js_round (js_add (Fin 65) (js_mul sc (Fin 50)))
      in case temperaturePass h s1 cells of (recs, s') \<Rightarrow>
           (\<lparr>h3Index = c, score = sc, temperature_cell.tempF = tF\<rparr> # recs, s'))"

definition generateTexasTemperatureData :: "h3 \<Rightarrow> int \<Rightarrow> error + temperature_cell list" where
  "generateTexasTemperatureData h resolution =
     (case polygonToCells h TEXAS_POLYGON resolution of
        Inl e \<Rightarrow> Inl e
      | Inr cells \<Rightarrow> Inr (fst (temperaturePass h (seededRandom 99) cells)))"

subsection \<open>\<open>generateTexasHexData\<close>\<close>

text \<open>First pass: the raw score of every cell.\<close>

definition hexRawScores :: "h3 \<Rightarrow> h3index list \<Rightarrow> jsnum list" where
  "hexRawScores h cells =
     map (\<lambda>c. case cellToLatLng h c of (cellLat, cellLng) \<Rightarrow>
                 rawScore SUPPLY_SOURCES DEMAND_SINKS cellLat cellLng) cells"

text \<open>
  Second pass: the callback of \<open>cells.map((h3Index, i) => ...)\<close> over the cells paired
  with their positions, the register of \<open>rand\<close> threaded through. The parameter
  \<open>rng\<close> is the source's \<open>range\<close>. \<open>rawScores[i]\<close> never reads past the end:
  \<open>rawScores\<close> has one entry per cell.
\<close>

fun hexSecondPass ::
  "jsnum list \<Rightarrow> jsnum \<Rightarrow> jsnum \<Rightarrow> int \<Rightarrow> (h3index \<times> nat) list \<Rightarrow> surplus_cell list \<times> int" where
  "hexSecondPass rawScores minRaw rng s [] = ([], s)"
| "hexSecondPass rawScores minRaw rng s ((c, i) # rest) =
     (case rand s of (r, s1) \<Rightarrow>
      let noise = js_mul (js_sub r (Fin 0.5)) (Fin 0.06);
          sc = js_max (Fin 0)
                 (js_min (Fin 1) (js_add (js_div (js_sub (rawScores ! i) minRaw) rng) noise));
          mwh = js_round (js_mul sc (Fin 8000))
      in case hexSecondPass rawScores minRaw rng s1 rest of (recs, s') \<Rightarrow>
           (\<lparr>h3Index = c, score = sc, surplusMwh = mwh\<rparr> # recs, s'))"

text \<open>
  The body of \<open>generateTexasHexData\<close> once the cells are known; beside \<open>data\<close> it
  returns the register the generator is left with.
\<close>

definition hexData :: "h3 \<Rightarrow> h3index list \<Rightarrow> surplus_cell list \<times> int" where
  "hexData h cells =
     (let rawScores = hexRawScores h cells;
          minRaw = js_min_list rawScores;
          maxRaw = js_max_list rawScores;
          rng = js_sub maxRaw minRaw
      in hexSecondPass rawScores minRaw rng (seededRandom 42)
           (zip cells [0 ..< length cells]))"

definition generateTexasHexData :: "h3 \<Rightarrow> int \<Rightarrow> error + surplus_cell list" where
  "generateTexasHexData h resolution =
     (case polygonToCells h TEXAS_POLYGON resolution of
        Inl e \<Rightarrow> Inl e
      | Inr cells \<Rightarrow> Inr (fst (hexData h cells)))"

subsection \<open>\<open>generateTexasCombinedData\<close>\<close>

text \<open>
  \<open>raw = surplus.map((s, i) => s.score * (1 - temp[i].score))\<close>. Reading \<open>temp[i]\<close>
  past the end of \<open>temp\<close> yields \<open>undefined\<close>, whose \<open>.score\<close> throws a
  \<open>TypeError\<close>: that is the first branch of \<open>combineFields\<close>.
\<close>

definition combinedRaw :: "surplus_cell list \<Rightarrow> temperature_cell list \<Rightarrow> jsnum list" where
  "combinedRaw surplus temp =
     map (\<lambda>(s, i). js_mul (score s) (js_sub (Fin 1) (score (temp ! i))))
       (zip surplus [0 ..< length surplus])"

definition combineFields ::
  "surplus_cell list \<Rightarrow> temperature_cell list \<Rightarrow> error + combined_cell list" where
  "combineFields surplus temp =
     (if length temp < length surplus then Inl TypeError
      else
        let raw = combinedRaw surplus temp;
            minRaw = js_min_list raw;
            maxRaw = js_max_list raw;
            rng = js_sub maxRaw minRaw
        in Inr (map (\<lambda>(s, i).
                  \<lparr>h3Index = h3Index s,
                   score = js_div (js_sub (raw ! i) minRaw) rng,
                   surplusMwh = surplusMwh s,
                   combined_cell.tempF = temperature_cell.tempF (temp ! i)\<rparr>)
               (zip surplus [0 ..< length surplus])))"

definition generateTexasCombinedData :: "h3 \<Rightarrow> int \<Rightarrow> error + combined_cell list" where
  "generateTexasCombinedData h resolution =
     (case generateTexasHexData h resolution of
        Inl e \<Rightarrow> Inl e
      | Inr surplus \<Rightarrow>
          (case generateTexasTemperatureData h resolution of
             Inl e \<Rightarrow> Inl e
           | Inr temp \<Rightarrow> combineFields surplus temp))"

section \<open>The specification's operations\<close>

text \<open>
  The contribution of one source at a point, in the words of the specification:
  \<open>w * exp(-((\<Delta>lat\<^sup>2 / (2 \<sigma>Lat\<^sup>2)) + (\<Delta>lng\<^sup>2 / (2 \<sigma>Lng\<^sup>2))))\<close>.
\<close>

definition spec_contribution :: "real \<Rightarrow> real \<Rightarrow> source \<Rightarrow> real" where
  "spec_contribution pLat pLng s =
     weight s * exp (- ((pLat - lat s)\<^sup>2 / (2 * (radLat s)\<^sup>2) + (pLng - lng s)\<^sup>2 / (2 * (radLng s)\<^sup>2)))"

text \<open>\<open>clamp01\<close> of the specification, with \<open>Math.max\<close> and \<open>Math.min\<close> as the program nests them.\<close>

definition clamp01 :: "jsnum \<Rightarrow> jsnum" where
  "clamp01 x = js_max (Fin 0) (js_min (Fin 1) x)"

text \<open>The first \<open>n\<close> values drawn, one after the other, from a generator whose register is \<open>s\<close>.\<close>

fun draws :: "int \<Rightarrow> nat \<Rightarrow> jsnum list" where
  "draws s 0 = []"
| "draws s (Suc n) = (case rand s of (r, s') \<Rightarrow> r # draws s' n)"

text \<open>
  The normalizer of the specification: minimum, maximum and range of the whole raw field
  first; then, cell by cell in the order of the field, one value \<open>r\<close> drawn from the
  generator started at \<open>seed\<close> and
  \<open>score = clamp01((raw - min) / range + (r - 0.5) * jitterAmplitude)\<close>.
\<close>

definition spec_normalize :: "jsnum list \<Rightarrow> int \<Rightarrow> jsnum \<Rightarrow> jsnum list" where
  "spec_normalize raw seed jitterAmplitude =
     (let mn = js_min_list raw;
          mx = js_max_list raw;
          rng = js_sub mx mn
      in map (\<lambda>(x, r). clamp01 (js_add (js_div (js_sub x mn) rng)
                                     (js_mul (js_sub r (Fin 0.5)) jitterAmplitude)))
           (zip raw (draws (seededRandom seed) (length raw))))"


section \<open>Auxiliary notions\<close>

text \<open>The value drawn by one call of \<open>rand\<close> and the register it leaves, as plain numbers.\<close>

definition draw :: "int \<Rightarrow> real" where
  "draw s = of_int (toUint32 (toInt32 (s * 1664525 + 1013904223))) / 4294967295"

definition next_reg :: "int \<Rightarrow> int" where
  "next_reg s = toInt32 (s * 1664525 + 1013904223)"

text \<open>The raw surplus value at the centroid of a cell, as a real number.\<close>

definition rawAt :: "h3 \<Rightarrow> h3index \<Rightarrow> real" where
  "rawAt h c = sum_list (map (spec_contribution (fst (cellToLatLng h c)) (snd (cellToLatLng h c)))
       (SUPPLY_SOURCES @ DEMAND_SINKS))"

text \<open>The score expression of the second pass of \<open>generateTexasHexData\<close>.\<close>

definition hexScore :: "jsnum \<Rightarrow> jsnum \<Rightarrow> jsnum \<Rightarrow> jsnum \<Rightarrow> jsnum" where
  "hexScore x mn rg r =
     clamp01 (js_add (js_div (js_sub x mn) rg) (js_mul (js_sub r (Fin 0.5)) (Fin 0.06)))"

text \<open>The temperature builder's \<open>base\<close> and \<open>score\<close> at a centroid, for a drawn value \<open>r\<close>, as real numbers.\<close>

definition tempBase :: "real \<Rightarrow> real \<Rightarrow> real" where
  "tempBase cellLat cellLng =
     0.65 * (1 - (cellLat - LAT_MIN) / (LAT_MAX - LAT_MIN))
     + 0.20 * (1 - (cellLng - LNG_MIN) / (LNG_MAX - LNG_MIN))"

definition tempScore :: "real \<Rightarrow> real \<Rightarrow> real \<Rightarrow> real" where
  "tempScore cellLat cellLng r = max 0 (min 1 (tempBase cellLat cellLng + (r - 0.5) * 0.12))"

text \<open>The finite numbers and their values.\<close>

fun fin_val :: "jsnum \<Rightarrow> real" where
  "fin_val (Fin x) = x"
| "fin_val PInf = 0"
| "fin_val NInf = 0"
| "fin_val NaN = 0"

fun is_fin :: "jsnum \<Rightarrow> bool" where
  "is_fin (Fin x) = True"
| "is_fin PInf = False"
| "is_fin NInf = False"
| "is_fin NaN = False"

text \<open>The records \<open>generateTexasCombinedData\<close> returns when \<open>temp\<close> has a record for every record of \<open>surplus\<close>.\<close>

definition combinedCells ::
  "surplus_cell list \<Rightarrow> temperature_cell list \<Rightarrow> combined_cell list" where
  "combinedCells surplus temp =
     map (\<lambda>(s, i).
            \<lparr>h3Index = h3Index s,
             score = js_div (js_sub (combinedRaw surplus temp ! i) (js_min_list (combinedRaw surplus temp)))
                       (rawRange (combinedRaw surplus temp)),
             surplusMwh = surplusMwh s,
             combined_cell.tempF = temperature_cell.tempF (temp ! i)\<rparr>)
       (zip surplus [0 ..< length surplus])"

text \<open>
  The exponent of a contribution, and a rational bound on its size:
  \<open>exp(-E) \<le> 1 / (1 + E + E\<^sup>2 / 2)\<close> for \<open>E \<ge> 0\<close>.
\<close>

definition gauss_exponent :: "real \<Rightarrow> real \<Rightarrow> source \<Rightarrow> real" where
  "gauss_exponent pLat pLng s =
     (pLat - lat s)\<^sup>2 / (2 * (radLat s)\<^sup>2) + (pLng - lng s)\<^sup>2 / (2 * (radLng s)\<^sup>2)"

definition contribution_bound :: "real \<Rightarrow> real \<Rightarrow> source \<Rightarrow> real" where
  "contribution_bound pLat pLng s =
     \<bar>weight s\<bar> / (1 + gauss_exponent pLat pLng s + (gauss_exponent pLat pLng s)\<^sup>2 / 2)"

subsection \<open>Example tilings\<close>

text \<open>
  Answers of the grid library used as concrete inputs: two cells, centred on Houston and
  on the Panhandle wind cluster; a single cell; no cell at all.
\<close>

definition houston_panhandle :: h3 where
  "houston_panhandle =
     \<lparr>polygonToCells = (\<lambda>boundary resolution. Inr [''H'', ''P'']),
      cellToLatLng = (\<lambda>c. if c = ''H'' then (29.749, -95.358) else (36.1, -101.5))\<rparr>"

definition single_cell :: h3 where
  "single_cell =
     \<lparr>polygonToCells = (\<lambda>boundary resolution. Inr [''A'']),
      cellToLatLng = (\<lambda>c. (31.0, -100.0))\<rparr>"




section \<open>Auxiliary facts\<close>

subsection \<open>The influence model\<close>

lemma anisotropicGaussian_finite:
  assumes "radLat s \<noteq> 0" and "radLng s \<noteq> 0"
  shows "anisotropicGaussian pLat pLng s = Fin (spec_contribution pLat pLng s)"
  using assms
  by (simp add: anisotropicGaussian_def spec_contribution_def js_sub_def Let_def power2_eq_square)

lemma foldl_js_add_finite:
  assumes "\<And>s. s \<in> set xs \<Longrightarrow> f s = Fin (g s)"
  shows "foldl (\<lambda>acc s. js_add acc (f s)) (Fin a) xs = Fin (a + sum_list (map g xs))"
  using assms by (induction xs arbitrary: a) (simp_all add: add.assoc)

lemma rawScore_finite:
  assumes "\<And>s. s \<in> set (supply @ sinks) \<Longrightarrow> radLat s \<noteq> 0 \<and> radLng s \<noteq> 0"
  shows "rawScore supply sinks pLat pLng =
           Fin (sum_list (map (spec_contribution pLat pLng) (supply @ sinks)))"
proof -
  have 1: "foldl (\<lambda>acc s. js_add acc (anisotropicGaussian pLat pLng s)) (Fin 0) supply
             = Fin (0 + sum_list (map (spec_contribution pLat pLng) supply))"
    by (rule foldl_js_add_finite) (simp add: anisotropicGaussian_finite assms)
  have 2: "foldl (\<lambda>acc s. js_add acc (anisotropicGaussian pLat pLng s))
              (Fin (sum_list (map (spec_contribution pLat pLng) supply))) sinks
             = Fin (sum_list (map (spec_contribution pLat pLng) supply)
                    + sum_list (map (spec_contribution pLat pLng) sinks))"
    by (rule foldl_js_add_finite) (simp add: anisotropicGaussian_finite assms)
  show ?thesis using 1 2 by (simp add: rawScore_def)
qed

lemma supply_radii: "s \<in> set SUPPLY_SOURCES \<Longrightarrow> radLat s \<noteq> 0 \<and> radLng s \<noteq> 0"
  by (auto simp: SUPPLY_SOURCES_def)

lemma sink_radii: "s \<in> set DEMAND_SINKS \<Longrightarrow> radLat s \<noteq> 0 \<and> radLng s \<noteq> 0"
  by (auto simp: DEMAND_SINKS_def)

lemma hexRawScores_finite: "hexRawScores h cells = map (\<lambda>c. Fin (rawAt h c)) cells"
proof -
  have "rawScore SUPPLY_SOURCES DEMAND_SINKS a b =
          Fin (sum_list (map (spec_contribution a b) (SUPPLY_SOURCES @ DEMAND_SINKS)))" for a b
    by (rule rawScore_finite) (auto dest: supply_radii sink_radii)
  then show ?thesis
    by (simp add: hexRawScores_def rawAt_def split: prod.splits)
qed

lemma gaussian_at_source:
  assumes "radLat s \<noteq> 0" and "radLng s \<noteq> 0"
  shows "anisotropicGaussian (lat s) (lng s) s = Fin (weight s)"
  using assms by (simp add: anisotropicGaussian_finite spec_contribution_def)

subsection \<open>The generator\<close>

lemma toInt32_neg1: "toInt32 4294967295 = -1"
  by (simp add: toInt32_def)

lemma js_bitand_mask: "js_bitand x 4294967295 = toInt32 x"
  by (simp add: js_bitand_def toInt32_neg1)

lemma rand_eq: "rand s = (Fin (of_int (toUint32 (toInt32 (s * 1664525 + 1013904223))) / 4294967295),
    toInt32 (s * 1664525 + 1013904223))"
  by (simp add: rand_def js_bitand_mask Let_def)

lemma toUint32_range: "0 \<le> toUint32 x \<and> toUint32 x \<le> 4294967295"
  by (simp add: toUint32_def)

lemma rand_draw: "rand s = (Fin (draw s), next_reg s)"
  by (simp add: rand_eq draw_def next_reg_def)

lemma draw_range: "0 \<le> draw s \<and> draw s \<le> 1"
proof -
  let ?u = "toUint32 (toInt32 (s * 1664525 + 1013904223))"
  have "0 \<le> ?u" "?u \<le> 4294967295" using toUint32_range by auto
  then have "0 \<le> (of_int ?u :: real)" "(of_int ?u :: real) \<le> 4294967295"
    by (simp_all add: of_int_le_iff[of ?u 4294967295, where 'a=real, simplified])
  then show ?thesis by (simp add: draw_def)
qed

subsection \<open>Clamping, minimum and maximum\<close>

lemma clamp01_in01: "x \<noteq> NaN \<Longrightarrow> in01 (clamp01 x)"
  by (cases x) (auto simp: clamp01_def)

lemma clamp01_NaN: "clamp01 NaN = NaN"
  by (simp add: clamp01_def)

lemma clamp01_Fin: "clamp01 (Fin x) = Fin (max 0 (min 1 x))"
  by (simp add: clamp01_def)

lemma foldl_min_Min: "foldl min (a::real) xs = Min (set (a # xs))"
proof (induction xs arbitrary: a)
  case Nil
  show ?case by simp
next
  case (Cons x xs)
  have "foldl min a (x # xs) = Min (insert (min a x) (set xs))"
    using Cons.IH[of "min a x"] by simp
  also have "\<dots> = Min (set (a # x # xs))"
  proof (cases "xs = []")
    case True
    then show ?thesis by simp
  next
    case False
    then have ne: "set xs \<noteq> {}" by simp
    have "Min (insert (min a x) (set xs)) = min (min a x) (Min (set xs))"
      using ne by simp
    also have "\<dots> = min a (min x (Min (set xs)))" by (simp add: min.assoc)
    also have "\<dots> = Min (insert a (insert x (set xs)))" using ne by simp
    finally show ?thesis by simp
  qed
  finally show ?case .
qed

lemma foldl_max_Max: "foldl max (a::real) xs = Max (set (a # xs))"
proof (induction xs arbitrary: a)
  case Nil
  show ?case by simp
next
  case (Cons x xs)
  have "foldl max a (x # xs) = Max (insert (max a x) (set xs))"
    using Cons.IH[of "max a x"] by simp
  also have "\<dots> = Max (set (a # x # xs))"
  proof (cases "xs = []")
    case True
    then show ?thesis by simp
  next
    case False
    then have ne: "set xs \<noteq> {}" by simp
    have "Max (insert (max a x) (set xs)) = max (max a x) (Max (set xs))"
      using ne by simp
    also have "\<dots> = max a (max x (Max (set xs)))" by (simp add: max.assoc)
    also have "\<dots> = Max (insert a (insert x (set xs)))" using ne by simp
    finally show ?thesis by simp
  qed
  finally show ?case .
qed

lemma foldl_js_min_Fin: "foldl js_min (Fin a) (map Fin xs) = Fin (foldl min a xs)"
  by (induction xs arbitrary: a) simp_all

lemma foldl_js_max_Fin: "foldl js_max (Fin a) (map Fin xs) = Fin (foldl max a xs)"
  by (induction xs arbitrary: a) simp_all

lemma js_min_list_Fin: "xs \<noteq> [] \<Longrightarrow> js_min_list (map Fin xs) = Fin (Min (set xs))"
  by (cases xs) (simp_all add: js_min_list_def foldl_js_min_Fin foldl_min_Min)

lemma js_max_list_Fin: "xs \<noteq> [] \<Longrightarrow> js_max_list (map Fin xs) = Fin (Max (set xs))"
  by (cases xs) (simp_all add: js_max_list_def foldl_js_max_Fin foldl_max_Max)

lemma rawRange_Fin: "xs \<noteq> [] \<Longrightarrow> rawRange (map Fin xs) = Fin (Max (set xs) - Min (set xs))"
  by (simp add: rawRange_def js_min_list_Fin js_max_list_Fin js_sub_def)

lemma rawRange_Nil: "rawRange [] = NInf"
  by (simp add: rawRange_def js_min_list_def js_max_list_def js_sub_def)

lemma minmax_unit:
  assumes "x \<in> set xs" and "Max (set xs) - Min (set xs) \<noteq> 0"
  shows "0 \<le> (x - Min (set xs)) / (Max (set xs) - Min (set xs))
       \<and> (x - Min (set xs)) / (Max (set xs) - Min (set xs)) \<le> (1::real)"
proof -
  have lo: "Min (set xs) \<le> x" and hi: "x \<le> Max (set xs)" using assms(1) by simp_all
  then have pos: "0 < Max (set xs) - Min (set xs)" using assms(2) by linarith
  from lo hi pos show ?thesis by (simp add: divide_le_eq)
qed

lemma minmax_degenerate:
  assumes "x \<in> set xs" and "Max (set xs) - Min (set xs) = (0::real)"
  shows "x - Min (set xs) = 0"
proof -
  have lo: "Min (set xs) \<le> x" and hi: "x \<le> Max (set xs)" using assms(1) by simp_all
  then show ?thesis using assms(2) by linarith
qed

subsection \<open>The second pass of the surplus builder\<close>

lemma length_draws: "length (draws s n) = n"
  by (induction n arbitrary: s) (simp_all add: rand_draw)

lemma draws_Suc: "draws s (Suc n) = Fin (draw s) # draws (next_reg s) n"
  by (simp add: rand_draw)

lemma hexSecondPass_Cons:
  "hexSecondPass raws mn rg s ((c, i) # rest) =
     (\<lparr>h3Index = c, score = hexScore (raws ! i) mn rg (Fin (draw s)),
       surplusMwh = js_round (js_mul (hexScore (raws ! i) mn rg (Fin (draw s))) (Fin 8000))\<rparr>
        # fst (hexSecondPass raws mn rg (next_reg s) rest),
      snd (hexSecondPass raws mn rg (next_reg s) rest))"
  by (simp add: rand_draw Let_def hexScore_def clamp01_def split: prod.splits)

lemma hexSecondPass_length: "length (fst (hexSecondPass raws mn rg s cells_i)) = length cells_i"
  by (induction cells_i arbitrary: s) (auto simp: hexSecondPass_Cons simp del: hexSecondPass.simps(2))


lemma next_reg_rand: "snd (rand s) = next_reg s"
  by (simp add: rand_draw)


lemma hexSecondPass_scores:
  "map score (fst (hexSecondPass raws mn rg s cells_i)) =
     map (\<lambda>((c, i), r). hexScore (raws ! i) mn rg r) (zip cells_i (draws s (length cells_i)))"
  by (induction cells_i arbitrary: s)
     (auto simp: hexSecondPass_Cons draws_Suc simp del: hexSecondPass.simps(2) draws.simps(2))

lemma hexSecondPass_mwh:
  "r \<in> set (fst (hexSecondPass raws mn rg s cells_i)) \<Longrightarrow>
     surplusMwh r = js_round (js_mul (score r) (Fin 8000))"
  by (induction cells_i arbitrary: s)
     (auto simp: hexSecondPass_Cons simp del: hexSecondPass.simps(2))

lemma zip_enumerate_nth:
  "length ds = length raws \<Longrightarrow> length cells = length raws \<Longrightarrow>
   map (\<lambda>((c, i), r). F (raws ! i) r) (zip (zip cells [0 ..< length cells]) ds)
     = map (\<lambda>(x, r). F x r) (zip raws ds)"
  by (rule nth_equalityI) simp_all

lemma spec_normalize_alt:
  "spec_normalize raw seed (Fin 0.06) =
     map (\<lambda>(x, r). hexScore x (js_min_list raw) (rawRange raw) r)
       (zip raw (draws (seededRandom seed) (length raw)))"
  by (simp add: spec_normalize_def hexScore_def rawRange_def Let_def)

lemma hexData_scores:
  "map score (fst (hexData h cells)) = spec_normalize (hexRawScores h cells) 42 (Fin 0.06)"
proof -
  let ?raws = "hexRawScores h cells"
  have len: "length ?raws = length cells" by (simp add: hexRawScores_def)
  have "map score (fst (hexData h cells)) =
          map (\<lambda>((c, i), r). hexScore (?raws ! i) (js_min_list ?raws) (rawRange ?raws) r)
            (zip (zip cells [0 ..< length cells]) (draws (seededRandom 42) (length cells)))"
    by (simp add: hexData_def Let_def hexSecondPass_scores rawRange_def)
  also have "\<dots> = map (\<lambda>(x, r). hexScore x (js_min_list ?raws) (rawRange ?raws) r)
            (zip ?raws (draws (seededRandom 42) (length cells)))"
    by (rule zip_enumerate_nth) (simp_all add: len length_draws)
  finally show ?thesis by (simp only: spec_normalize_alt len)
qed


lemma hexData_length: "length (fst (hexData h cells)) = length cells"
  by (simp add: hexData_def Let_def hexSecondPass_length)


lemma hexData_mwh:
  "r \<in> set (fst (hexData h cells)) \<Longrightarrow> surplusMwh r = js_round (js_mul (score r) (Fin 8000))"
  by (auto simp: hexData_def Let_def dest: hexSecondPass_mwh)

lemma draws_Fin: "x \<in> set (draws s n) \<Longrightarrow> \<exists>r. x = Fin r \<and> 0 \<le> r \<and> r \<le> 1"
  by (induction n arbitrary: s) (auto simp: draws_Suc draw_range simp del: draws.simps(2))


subsection \<open>The temperature builder\<close>

lemma temperaturePass_Cons:
  "temperaturePass h s (c # cells) =
     (\<lparr>h3Index = c,
       score = Fin (tempScore (fst (cellToLatLng h c)) (snd (cellToLatLng h c)) (draw s)),
       temperature_cell.tempF = js_round (js_add (Fin 65) (js_mul
          (Fin (tempScore (fst (cellToLatLng h c)) (snd (cellToLatLng h c)) (draw s))) (Fin 50)))\<rparr>
        # fst (temperaturePass h (next_reg s) cells),
      snd (temperaturePass h (next_reg s) cells))"
  by (simp add: rand_draw Let_def tempScore_def tempBase_def js_sub_def
        LAT_MIN_def LAT_MAX_def LNG_MIN_def LNG_MAX_def split: prod.splits)

lemma temperaturePass_length: "length (fst (temperaturePass h s cells)) = length cells"
  by (induction cells arbitrary: s)
     (simp_all add: temperaturePass_Cons del: temperaturePass.simps(2))

lemma temperaturePass_ids: "map h3Index (fst (temperaturePass h s cells)) = cells"
  by (induction cells arbitrary: s)
     (simp_all add: temperaturePass_Cons del: temperaturePass.simps(2))

lemma temperaturePass_register:
  "snd (temperaturePass h s cells) = ((snd \<circ> rand) ^^ length cells) s"
  by (induction cells arbitrary: s)
     (simp_all add: temperaturePass_Cons funpow_swap1 next_reg_rand del: temperaturePass.simps(2))

lemma tempScore_range: "0 \<le> tempScore a b r \<and> tempScore a b r \<le> 1"
  by (simp add: tempScore_def)

lemma temperaturePass_in01:
  "r \<in> set (fst (temperaturePass h s cells)) \<Longrightarrow> in01 (score r)"
  by (induction cells arbitrary: s)
     (auto simp: temperaturePass_Cons tempScore_range simp del: temperaturePass.simps(2))




subsection \<open>The combined builder\<close>

lemma combinedRaw_length: "length (combinedRaw surplus temp) = length surplus"
  by (simp add: combinedRaw_def)

lemma combinedRaw_nth:
  "i < length surplus \<Longrightarrow>
     combinedRaw surplus temp ! i = js_mul (score (surplus ! i)) (js_sub (Fin 1) (score (temp ! i)))"
  by (simp add: combinedRaw_def)

lemma combinedRaw_map2:
  "length temp = length surplus \<Longrightarrow>
   combinedRaw surplus temp =
     map (\<lambda>(x, y). js_mul x (js_sub (Fin 1) y)) (zip (map score surplus) (map score temp))"
  by (rule nth_equalityI) (simp_all add: combinedRaw_def)

lemma combineFields_ok:
  "length surplus \<le> length temp \<Longrightarrow> combineFields surplus temp = Inr (combinedCells surplus temp)"
  by (simp add: combineFields_def combinedCells_def Let_def rawRange_def)

lemma combineFields_short:
  "length temp < length surplus \<Longrightarrow> combineFields surplus temp = Inl TypeError"
  by (simp add: combineFields_def)

lemma combinedCells_length: "length (combinedCells surplus temp) = length surplus"
  by (simp add: combinedCells_def)

lemma combinedCells_ids: "map h3Index (combinedCells surplus temp) = map h3Index surplus"
  by (rule nth_equalityI) (simp_all add: combinedCells_def)

lemma combinedCells_mwh: "map surplusMwh (combinedCells surplus temp) = map surplusMwh surplus"
  by (rule nth_equalityI) (simp_all add: combinedCells_def)

lemma combinedCells_tempF:
  "length temp = length surplus \<Longrightarrow>
     map combined_cell.tempF (combinedCells surplus temp) = map temperature_cell.tempF temp"
  by (rule nth_equalityI) (simp_all add: combinedCells_def)

lemma combinedCells_scores:
  "map score (combinedCells surplus temp) =
     map (\<lambda>x. js_div (js_sub x (js_min_list (combinedRaw surplus temp)))
                 (rawRange (combinedRaw surplus temp))) (combinedRaw surplus temp)"
  by (rule nth_equalityI) (simp_all add: combinedCells_def combinedRaw_length)


lemma generateTexasTemperatureData_Inr:
  "polygonToCells h TEXAS_POLYGON resolution = Inr cells \<Longrightarrow>
     generateTexasTemperatureData h resolution = Inr (fst (temperaturePass h (seededRandom 99) cells))"
  by (simp add: generateTexasTemperatureData_def)

lemma generateTexasHexData_Inr:
  "polygonToCells h TEXAS_POLYGON resolution = Inr cells \<Longrightarrow>
     generateTexasHexData h resolution = Inr (fst (hexData h cells))"
  by (simp add: generateTexasHexData_def)

lemma generateTexasCombinedData_Inr:
  "polygonToCells h TEXAS_POLYGON resolution = Inr cells \<Longrightarrow>
     generateTexasCombinedData h resolution =
       Inr (combinedCells (fst (hexData h cells)) (fst (temperaturePass h (seededRandom 99) cells)))"
  by (simp add: generateTexasCombinedData_def generateTexasHexData_Inr
        generateTexasTemperatureData_Inr combineFields_ok hexData_length temperaturePass_length)


subsection \<open>Fields of range zero and of range not zero\<close>

lemma is_fin_conv: "is_fin x \<longleftrightarrow> x = Fin (fin_val x)"
  by (cases x) simp_all

lemma foldl_js_max_is_Fin:
  "foldl js_max acc xs = Fin a \<Longrightarrow> acc \<noteq> PInf \<and> acc \<noteq> NaN \<and> PInf \<notin> set xs \<and> NaN \<notin> set xs"
proof (induction xs arbitrary: acc)
  case Nil
  then show ?case by simp
next
  case (Cons x xs)
  from Cons.prems have "foldl js_max (js_max acc x) xs = Fin a" by simp
  from Cons.IH[OF this]
  have 1: "js_max acc x \<noteq> PInf" "js_max acc x \<noteq> NaN" "PInf \<notin> set xs" "NaN \<notin> set xs"
    by simp_all
  from 1(1,2) have "acc \<noteq> PInf \<and> acc \<noteq> NaN \<and> x \<noteq> PInf \<and> x \<noteq> NaN"
    by (cases acc; cases x) simp_all
  with 1(3,4) show ?case by auto
qed

lemma foldl_js_min_is_Fin:
  "foldl js_min acc xs = Fin a \<Longrightarrow> acc \<noteq> NInf \<and> acc \<noteq> NaN \<and> NInf \<notin> set xs \<and> NaN \<notin> set xs"
proof (induction xs arbitrary: acc)
  case Nil
  then show ?case by simp
next
  case (Cons x xs)
  from Cons.prems have "foldl js_min (js_min acc x) xs = Fin a" by simp
  from Cons.IH[OF this]
  have 1: "js_min acc x \<noteq> NInf" "js_min acc x \<noteq> NaN" "NInf \<notin> set xs" "NaN \<notin> set xs"
    by simp_all
  from 1(1,2) have "acc \<noteq> NInf \<and> acc \<noteq> NaN \<and> x \<noteq> NInf \<and> x \<noteq> NaN"
    by (cases acc; cases x) simp_all
  with 1(3,4) show ?case by auto
qed

lemma js_sub_is_Fin: "js_sub a b = Fin d \<Longrightarrow> is_fin a \<and> is_fin b"
  by (cases a; cases b) (simp_all add: js_sub_def)

lemma rawRange_Fin_all_fin:
  assumes "rawRange xs = Fin d"
  shows "xs = map Fin (map fin_val xs) \<and> xs \<noteq> []"
proof -
  from assms obtain a b where mx: "js_max_list xs = Fin a" and mn: "js_min_list xs = Fin b"
    using js_sub_is_Fin[of "js_max_list xs" "js_min_list xs" d]
    by (auto simp: rawRange_def is_fin_conv)
  from foldl_js_max_is_Fin[OF mx[unfolded js_max_list_def]]
       foldl_js_min_is_Fin[OF mn[unfolded js_min_list_def]]
  have "PInf \<notin> set xs" "NaN \<notin> set xs" "NInf \<notin> set xs" by simp_all
  then have "x \<in> set xs \<Longrightarrow> x = Fin (fin_val x)" for x
    by (cases x) auto
  then have "xs = map Fin (map fin_val xs)"
    by (simp add: map_idI)
  moreover from mx have "xs \<noteq> []" by (auto simp: js_max_list_def)
  ultimately show ?thesis by blast
qed

lemma minmax_quotient_NaN:
  assumes "rawRange xs = Fin 0" and "x \<in> set xs"
  shows "js_div (js_sub x (js_min_list xs)) (rawRange xs) = NaN"
proof -
  let ?ys = "map fin_val xs"
  from rawRange_Fin_all_fin[OF assms(1)] have xs: "xs = map Fin ?ys" and ne: "?ys \<noteq> []"
    by simp_all
  from assms(2) xs have x: "x = Fin (fin_val x)" and mem: "fin_val x \<in> set ?ys"
    by (metis (no_types, lifting) image_iff list.set_map jsnum.inject(1) fin_val.simps(1), simp)
  have rg: "rawRange xs = Fin (Max (set ?ys) - Min (set ?ys))"
    using rawRange_Fin[OF ne] xs by simp
  with assms(1) have zero: "Max (set ?ys) - Min (set ?ys) = 0" by simp
  have mn: "js_min_list xs = Fin (Min (set ?ys))"
    using js_min_list_Fin[OF ne] xs by simp
  from minmax_degenerate[OF mem zero] have "fin_val x - Min (set ?ys) = 0" .
  then have "js_sub x (js_min_list xs) = Fin 0"
    using x mn by (metis js_sub_def js_neg.simps(1) js_add.simps(1) add_uminus_conv_diff)
  then show ?thesis using assms(1) by simp
qed

lemma minmax_quotient_unit:
  assumes "rawRange xs = Fin d" and "d \<noteq> 0" and "x \<in> set xs"
  shows "\<exists>q. js_div (js_sub x (js_min_list xs)) (rawRange xs) = Fin q \<and> 0 \<le> q \<and> q \<le> 1"
proof -
  let ?ys = "map fin_val xs"
  from rawRange_Fin_all_fin[OF assms(1)] have xs: "xs = map Fin ?ys" and ne: "?ys \<noteq> []"
    by simp_all
  from assms(3) xs have x: "x = Fin (fin_val x)" and mem: "fin_val x \<in> set ?ys"
    by (metis (no_types, lifting) image_iff list.set_map jsnum.inject(1) fin_val.simps(1), simp)
  have rg: "rawRange xs = Fin (Max (set ?ys) - Min (set ?ys))"
    using rawRange_Fin[OF ne] xs by simp
  with assms(1,2) have nz: "Max (set ?ys) - Min (set ?ys) \<noteq> 0" by simp
  have mn: "js_min_list xs = Fin (Min (set ?ys))"
    using js_min_list_Fin[OF ne] xs by simp
  have "js_sub x (js_min_list xs) = Fin (fin_val x - Min (set ?ys))"
    using x mn by (metis js_sub_def js_neg.simps(1) js_add.simps(1) add_uminus_conv_diff)
  then have "js_div (js_sub x (js_min_list xs)) (rawRange xs)
          = Fin ((fin_val x - Min (set ?ys)) / (Max (set ?ys) - Min (set ?ys)))"
    using rg nz by simp
  with minmax_unit[OF mem nz] show ?thesis by blast
qed

subsection \<open>Determinism\<close>


lemma hexData_score_mem:
  assumes "r \<in> set (fst (hexData h cells))"
  shows "\<exists>x d. x \<in> set (hexRawScores h cells) \<and> d \<in> set (draws (seededRandom 42) (length cells))
           \<and> score r = hexScore x (js_min_list (hexRawScores h cells)) (rawRange (hexRawScores h cells)) d"
proof -
  let ?raws = "hexRawScores h cells"
  from assms have "score r \<in> set (map score (fst (hexData h cells)))" by simp
  then have "score r \<in> set (map (\<lambda>(x, d). hexScore x (js_min_list ?raws) (rawRange ?raws) d)
       (zip ?raws (draws (seededRandom 42) (length ?raws))))"
    by (simp only: hexData_scores spec_normalize_alt)
  then obtain x d where "(x, d) \<in> set (zip ?raws (draws (seededRandom 42) (length ?raws)))"
    and "score r = hexScore x (js_min_list ?raws) (rawRange ?raws) d"
    by auto
  moreover have "length ?raws = length cells" by (simp add: hexRawScores_def)
  ultimately show ?thesis by (metis set_zip_leftD set_zip_rightD)
qed

lemma hexData_NaN:
  assumes "rawRange (hexRawScores h cells) = Fin 0" and "r \<in> set (fst (hexData h cells))"
  shows "score r = NaN"
proof -
  from hexData_score_mem[OF assms(2)] obtain x d where x: "x \<in> set (hexRawScores h cells)"
    and r: "score r = hexScore x (js_min_list (hexRawScores h cells)) (rawRange (hexRawScores h cells)) d"
    by blast
  from minmax_quotient_NaN[OF assms(1) x] r show ?thesis
    by (simp add: hexScore_def clamp01_NaN)
qed

lemma hexData_in01:
  assumes "rawRange (hexRawScores h cells) \<noteq> Fin 0" and "r \<in> set (fst (hexData h cells))"
  shows "in01 (score r)"
proof -
  let ?raws = "hexRawScores h cells"
  from assms(2) have ne: "map (rawAt h) cells \<noteq> []"
    using hexData_length[of h cells] by auto
  have raws: "?raws = map Fin (map (rawAt h) cells)" by (simp add: hexRawScores_finite)
  from rawRange_Fin[OF ne] raws obtain d where rg: "rawRange ?raws = Fin d" by simp
  with assms(1) have nz: "d \<noteq> 0" by simp
  from hexData_score_mem[OF assms(2)] obtain x v where x: "x \<in> set ?raws"
    and v: "v \<in> set (draws (seededRandom 42) (length cells))"
    and r: "score r = hexScore x (js_min_list ?raws) (rawRange ?raws) v"
    by blast
  from minmax_quotient_unit[OF rg nz x] obtain q
    where q: "js_div (js_sub x (js_min_list ?raws)) (rawRange ?raws) = Fin q" by blast
  from draws_Fin[OF v] obtain u where u: "v = Fin u" by blast
  have "score r = clamp01 (Fin (q + (u - 0.5) * 0.06))"
    using r q u by (simp add: hexScore_def js_sub_def)
  then show ?thesis by (simp add: clamp01_in01)
qed

lemma combinedCells_score_mem:
  assumes "r \<in> set (combinedCells surplus temp)"
  shows "\<exists>x \<in> set (combinedRaw surplus temp).
           score r = js_div (js_sub x (js_min_list (combinedRaw surplus temp)))
                       (rawRange (combinedRaw surplus temp))"
proof -
  from assms have "score r \<in> set (map score (combinedCells surplus temp))" by simp
  then show ?thesis by (auto simp: combinedCells_scores)
qed

lemma combinedCells_NaN:
  assumes "rawRange (combinedRaw surplus temp) = Fin 0" and "r \<in> set (combinedCells surplus temp)"
  shows "score r = NaN"
  using combinedCells_score_mem[OF assms(2)] minmax_quotient_NaN[OF assms(1)] by auto

lemma combinedRaw_finite:
  assumes "\<And>s. s \<in> set surplus \<Longrightarrow> in01 (score s)"
    and "\<And>t. t \<in> set temp \<Longrightarrow> in01 (score t)"
    and "length temp = length surplus"
  shows "combinedRaw surplus temp = map Fin (map fin_val (combinedRaw surplus temp))"
proof -
  have "is_fin x" if "x \<in> set (combinedRaw surplus temp)" for x
  proof -
    from that obtain i where i: "i < length surplus" and x: "x = combinedRaw surplus temp ! i"
      by (metis in_set_conv_nth combinedRaw_length)
    from i assms have "in01 (score (surplus ! i))" "in01 (score (temp ! i))" by simp_all
    then obtain a b where "score (surplus ! i) = Fin a" "score (temp ! i) = Fin b"
      by (metis in01.elims(2))
    with x i show ?thesis by (simp add: combinedRaw_nth js_sub_def)
  qed
  then have "x \<in> set (combinedRaw surplus temp) \<Longrightarrow> Fin (fin_val x) = x" for x
    using is_fin_conv[of x] by simp
  then have "map (\<lambda>x. Fin (fin_val x)) (combinedRaw surplus temp) = combinedRaw surplus temp"
    by (rule map_idI)
  then show ?thesis by (simp add: comp_def)
qed

lemma combinedCells_in01:
  assumes "\<And>s. s \<in> set surplus \<Longrightarrow> in01 (score s)"
    and "\<And>t. t \<in> set temp \<Longrightarrow> in01 (score t)"
    and "length temp = length surplus"
    and "rawRange (combinedRaw surplus temp) \<noteq> Fin 0"
    and "r \<in> set (combinedCells surplus temp)"
  shows "in01 (score r)"
proof -
  let ?raw = "combinedRaw surplus temp"
  from assms(5) have "?raw \<noteq> []"
    using combinedCells_length[of surplus temp] combinedRaw_length[of surplus temp] by auto
  then have ne: "map fin_val ?raw \<noteq> []" by simp
  from rawRange_Fin[OF ne] combinedRaw_finite[OF assms(1,2,3)]
  obtain d where rg: "rawRange ?raw = Fin d" by metis
  with assms(4) have nz: "d \<noteq> 0" by simp
  from combinedCells_score_mem[OF assms(5)] obtain x where x: "x \<in> set ?raw"
    and r: "score r = js_div (js_sub x (js_min_list ?raw)) (rawRange ?raw)" by blast
  from minmax_quotient_unit[OF rg nz x] r show ?thesis by auto
qed

subsection \<open>The example tilings\<close>

lemma single_cell_tiles: "polygonToCells single_cell TEXAS_POLYGON resolution = Inr [''A'']"
  by (simp add: single_cell_def)

lemma single_cell_range: "rawRange (hexRawScores single_cell [''A'']) = Fin 0"
  using rawRange_Fin[of "[rawAt single_cell ''A'']"] by (simp add: hexRawScores_finite)

lemma single_cell_hex:
  "generateTexasHexData single_cell resolution =
     Inr [\<lparr>h3Index = ''A'', score = NaN, surplusMwh = NaN\<rparr>]"
proof -
  have "hexScore x mn (Fin 0) r = NaN" if "js_sub x mn = Fin 0" for x mn r
    using that by (simp add: hexScore_def clamp01_NaN)
  moreover have "js_sub (Fin (rawAt single_cell ''A'')) (js_min_list [Fin (rawAt single_cell ''A'')]) = Fin 0"
    by (simp add: js_min_list_def js_sub_def)
  ultimately show ?thesis
    using single_cell_range
    by (simp add: generateTexasHexData_Inr[OF single_cell_tiles] hexData_def Let_def
          hexSecondPass_Cons hexRawScores_finite rawRange_def del: hexSecondPass.simps(2))
qed

lemma houston_panhandle_tiles:
  "polygonToCells houston_panhandle TEXAS_POLYGON resolution = Inr [''H'', ''P'']"
  by (simp add: houston_panhandle_def)

lemma single_cell_temperature:
  "generateTexasTemperatureData single_cell resolution =
     Inr [\<lparr>h3Index = ''A'', score = Fin (815305304064559 / 2006751885800500),
           temperature_cell.tempF = Fin 85\<rparr>]"
proof -
  have d: "draw (seededRandom 99) = 1178692198 / 4294967295"
    by (simp add: draw_def seededRandom_def toInt32_def toUint32_def)
  have t: "tempScore 31 (-100) (1178692198 / 4294967295) = 815305304064559 / 2006751885800500"
    by (simp add: tempScore_def tempBase_def LAT_MIN_def LAT_MAX_def LNG_MIN_def LNG_MAX_def)
  have f: "\<lfloor>(65::real) + 815305304064559 / 2006751885800500 * 50 + 1 / 2\<rfloor> = 85"
    by (simp add: floor_eq_iff)
  have c: "cellToLatLng single_cell ''A'' = (31, -100)"
    by (simp add: single_cell_def)
  show ?thesis
    unfolding generateTexasTemperatureData_Inr[OF single_cell_tiles]
    by (simp add: temperaturePass_Cons c d t f add.assoc del: temperaturePass.simps(2))
qed


subsection \<open>The raw surplus at Houston and at the Panhandle\<close>

lemma gauss_exponent_nonneg: "0 \<le> gauss_exponent a b s"
  by (simp add: gauss_exponent_def)

lemma contribution_abs_bound: "\<bar>spec_contribution a b s\<bar> \<le> contribution_bound a b s"
proof -
  let ?E = "gauss_exponent a b s"
  have E: "0 \<le> ?E" by (rule gauss_exponent_nonneg)
  then have low: "1 + ?E + ?E\<^sup>2 / 2 \<le> exp ?E" by (rule exp_lower_Taylor_quadratic)
  have pos: "0 < 1 + ?E + ?E\<^sup>2 / 2" using E by (simp add: add_pos_nonneg)
  have "exp (- ?E) = 1 / exp ?E" by (simp add: exp_minus inverse_eq_divide)
  also have "\<dots> \<le> 1 / (1 + ?E + ?E\<^sup>2 / 2)"
    using low pos by (simp add: frac_le)
  finally have "exp (- ?E) \<le> 1 / (1 + ?E + ?E\<^sup>2 / 2)" .
  then have "\<bar>weight s\<bar> * exp (- ?E) \<le> \<bar>weight s\<bar> * (1 / (1 + ?E + ?E\<^sup>2 / 2))"
    by (rule mult_left_mono) simp
  moreover have "\<bar>spec_contribution a b s\<bar> = \<bar>weight s\<bar> * exp (- ?E)"
    by (simp add: spec_contribution_def gauss_exponent_def abs_mult)
  ultimately show ?thesis by (simp add: contribution_bound_def)
qed

lemma sum_contribution_bound:
  "\<bar>sum_list (map (spec_contribution a b) xs)\<bar> \<le> sum_list (map (contribution_bound a b) xs)"
proof (induction xs)
  case Nil
  show ?case by simp
next
  case (Cons s xs)
  have "\<bar>spec_contribution a b s + sum_list (map (spec_contribution a b) xs)\<bar>
          \<le> \<bar>spec_contribution a b s\<bar> + \<bar>sum_list (map (spec_contribution a b) xs)\<bar>"
    by (rule abs_triangle_ineq)
  with Cons contribution_abs_bound[of a b s] show ?case by simp
qed

lemma sum_contribution_nonpos:
  "(\<And>s. s \<in> set xs \<Longrightarrow> weight s \<le> 0) \<Longrightarrow> sum_list (map (spec_contribution a b) xs) \<le> 0"
  by (induction xs) (simp_all add: spec_contribution_def mult_nonpos_nonneg add_nonpos_nonpos)

lemma sum_contribution_nonneg:
  "(\<And>s. s \<in> set xs \<Longrightarrow> 0 \<le> weight s) \<Longrightarrow> 0 \<le> sum_list (map (spec_contribution a b) xs)"
  by (induction xs) (simp_all add: spec_contribution_def)

lemma supply_bound_houston:
  "sum_list (map (contribution_bound 29.749 (-95.358)) SUPPLY_SOURCES) < 1"
  by (simp add: SUPPLY_SOURCES_def contribution_bound_def gauss_exponent_def power2_eq_square)

lemma sink_bound_panhandle:
  "sum_list (map (contribution_bound 36.1 (-101.5)) DEMAND_SINKS) < 0.98"
  by (simp add: DEMAND_SINKS_def contribution_bound_def gauss_exponent_def power2_eq_square)

lemma houston_panhandle_centroids:
  "cellToLatLng houston_panhandle ''H'' = (29.749, -95.358)"
  "cellToLatLng houston_panhandle ''P'' = (36.1, -101.5)"
  by (simp_all add: houston_panhandle_def)

lemma rawAt_houston_negative: "rawAt houston_panhandle ''H'' < 0"
proof -
  let ?c = "spec_contribution 29.749 (-95.358)"
  have "sum_list (map ?c SUPPLY_SOURCES) \<le> \<bar>sum_list (map ?c SUPPLY_SOURCES)\<bar>" by simp
  also have "\<dots> \<le> sum_list (map (contribution_bound 29.749 (-95.358)) SUPPLY_SOURCES)"
    by (rule sum_contribution_bound)
  also have "\<dots> < 1" by (rule supply_bound_houston)
  finally have sup: "sum_list (map ?c SUPPLY_SOURCES) < 1" .
  have split: "DEMAND_SINKS = hd DEMAND_SINKS # tl DEMAND_SINKS"
    by (simp add: DEMAND_SINKS_def)
  have head: "?c (hd DEMAND_SINKS) = -1"
    by (simp add: DEMAND_SINKS_def spec_contribution_def)
  have "sum_list (map ?c (tl DEMAND_SINKS)) \<le> 0"
    by (rule sum_contribution_nonpos) (auto simp: DEMAND_SINKS_def)
  then have "sum_list (map ?c (hd DEMAND_SINKS # tl DEMAND_SINKS)) \<le> -1"
    using head by simp
  then have sinks: "sum_list (map ?c DEMAND_SINKS) \<le> -1" using split by simp
  from sup sinks show ?thesis
    by (simp add: rawAt_def houston_panhandle_centroids)
qed

lemma rawAt_panhandle_positive: "0 < rawAt houston_panhandle ''P''"
proof -
  let ?c = "spec_contribution 36.1 (-101.5)"
  have "- sum_list (map ?c DEMAND_SINKS) \<le> \<bar>sum_list (map ?c DEMAND_SINKS)\<bar>" by simp
  also have "\<dots> \<le> sum_list (map (contribution_bound 36.1 (-101.5)) DEMAND_SINKS)"
    by (rule sum_contribution_bound)
  also have "\<dots> < 0.98" by (rule sink_bound_panhandle)
  finally have sinks: "- 0.98 < sum_list (map ?c DEMAND_SINKS)" by simp
  have split: "SUPPLY_SOURCES = hd SUPPLY_SOURCES # tl SUPPLY_SOURCES"
    by (simp add: SUPPLY_SOURCES_def)
  have head: "?c (hd SUPPLY_SOURCES) = 0.98"
    by (simp add: SUPPLY_SOURCES_def spec_contribution_def)
  have "0 \<le> sum_list (map ?c (tl SUPPLY_SOURCES))"
    by (rule sum_contribution_nonneg) (auto simp: SUPPLY_SOURCES_def)
  then have "0.98 \<le> sum_list (map ?c (hd SUPPLY_SOURCES # tl SUPPLY_SOURCES))"
    using head by simp
  then have sup: "0.98 \<le> sum_list (map ?c SUPPLY_SOURCES)" using split by simp
  from sup sinks show ?thesis
    by (simp add: rawAt_def houston_panhandle_centroids)
qed

lemma houston_panhandle_raw:
  "hexRawScores houston_panhandle [''H'', ''P'']
     = [Fin (rawAt houston_panhandle ''H''), Fin (rawAt houston_panhandle ''P'')]"
  by (simp add: hexRawScores_finite)

lemma two_cell_minmax:
  assumes "x < y"
  shows "js_min_list [Fin x, Fin y] = Fin x" and "js_max_list [Fin x, Fin y] = Fin y"
    and "rawRange [Fin x, Fin y] = Fin (y - x)"
  using assms by (simp_all add: js_min_list_def js_max_list_def rawRange_def js_sub_def)

lemma houston_panhandle_range: "rawRange (hexRawScores houston_panhandle [''H'', ''P'']) \<noteq> Fin 0"
proof -
  have "rawAt houston_panhandle ''H'' < rawAt houston_panhandle ''P''"
    using rawAt_houston_negative rawAt_panhandle_positive by linarith
  then show ?thesis by (simp add: houston_panhandle_raw two_cell_minmax)
qed

lemma draws_42:
  "draw 42 = 1083814273 / 4294967295" "next_reg 42 = 1083814273"
  "draw 1083814273 = 378494188 / 4294967295"
  by (simp_all add: draw_def next_reg_def toInt32_def toUint32_def)

lemma two_cell_scores:
  assumes "x < y"
  shows "map score (fst (hexSecondPass [Fin x, Fin y] (Fin x) (Fin (y - x)) 42 [(a, 0), (b, 1)]))
           = [Fin 0, Fin (8213388093 / 8421504500)]"
proof -
  have 0: "hexScore (Fin x) (Fin x) (Fin (y - x)) (Fin (draw 42)) = Fin 0"
    using assms by (simp add: hexScore_def clamp01_Fin js_sub_def draws_42)
  have a: "js_sub (Fin y) (Fin x) = Fin (y - x)" by (simp add: js_sub_def)
  have q: "js_div (Fin (y - x)) (Fin (y - x)) = Fin 1" using assms by simp
  have 1: "hexScore (Fin y) (Fin x) (Fin (y - x)) (Fin (draw (next_reg 42)))
        = Fin (8213388093 / 8421504500)"
    unfolding hexScore_def a q by (simp add: clamp01_Fin js_sub_def draws_42)
  show ?thesis
    by (simp add: hexSecondPass_Cons 0 1 del: hexSecondPass.simps(2))
qed

lemma houston_panhandle_surplus_scores:
  "map score (fst (hexData houston_panhandle [''H'', ''P'']))
     = [Fin 0, Fin (8213388093 / 8421504500)]"
proof -
  have lt: "rawAt houston_panhandle ''H'' < rawAt houston_panhandle ''P''"
    using rawAt_houston_negative rawAt_panhandle_positive by linarith
  show ?thesis
    unfolding hexData_def Let_def houston_panhandle_raw two_cell_minmax[OF lt]
    using two_cell_scores[OF lt, of "''H''" "''P''"]
    by (simp add: js_sub_def seededRandom_def upt_rec numeral_2_eq_2)
qed

lemma draws_99:
  "draw 99 = 1178692198 / 4294967295" "next_reg 99 = 1178692198"
  "draw 1178692198 = 1109130893 / 4294967295"
  by (simp_all add: draw_def next_reg_def toInt32_def toUint32_def)

lemma houston_panhandle_temperature_scores:
  "map score (fst (temperaturePass houston_panhandle (seededRandom 99) [''H'', ''P'']))
     = [Fin (3302360417327817 / 8027007543202000), Fin (117821650042297 / 1003375942900250)]"
proof -
  have 0: "tempScore 29.749 (-95.358) (draw 99) = 3302360417327817 / 8027007543202000"
    by (simp add: tempScore_def tempBase_def LAT_MIN_def LAT_MAX_def LNG_MIN_def LNG_MAX_def
          draws_99)
  have 1: "tempScore 36.1 (-101.5) (draw (next_reg 99)) = 117821650042297 / 1003375942900250"
    by (simp add: tempScore_def tempBase_def LAT_MIN_def LAT_MAX_def LNG_MIN_def LNG_MAX_def
          draws_99)
  show ?thesis
    unfolding seededRandom_def
    apply (simp only: temperaturePass_Cons temperaturePass.simps(1) houston_panhandle_centroids
             fst_conv snd_conv 0 1)
    apply simp
    done
qed

lemma houston_panhandle_combined_range:
  "rawRange (combinedRaw (fst (hexData houston_panhandle [''H'', ''P'']))
       (fst (temperaturePass houston_panhandle (seededRandom 99) [''H'', ''P''])))
     = Fin (7273401084664546110553629 / 8449935018326198426125000)"
proof -
  let ?s = "fst (hexData houston_panhandle [''H'', ''P''])"
  let ?t = "fst (temperaturePass houston_panhandle (seededRandom 99) [''H'', ''P''])"
  have len: "length ?t = length ?s" by (simp only: hexData_length temperaturePass_length)
  have "combinedRaw ?s ?t =
      map (\<lambda>(x, y). js_mul x (js_sub (Fin 1) y)) (zip (map score ?s) (map score ?t))"
    by (rule combinedRaw_map2[OF len])
  also have "\<dots> = [Fin 0, Fin (7273401084664546110553629 / 8449935018326198426125000)]"
    unfolding houston_panhandle_surplus_scores houston_panhandle_temperature_scores
    by (simp add: js_sub_def)
  finally have raw: "combinedRaw ?s ?t
      = [Fin 0, Fin (7273401084664546110553629 / 8449935018326198426125000)]" .
  show ?thesis
    unfolding raw
    using two_cell_minmax(3)[of 0 "7273401084664546110553629 / 8449935018326198426125000"]
    by simp
qed


section \<open>The claims\<close>

text \<open>
  C1. Whenever the tiler answers, every temperature record has a score in [0,1]; every
  surplus record has a score in [0,1] provided the range of the raw surplus field is not
  zero; every combined record has a score in [0,1] provided, in addition, the range of
  the raw combined field is not zero. On a tiling of a single cell the range of the raw
  surplus field is zero: the surplus score is \<open>NaN\<close>, and then so are the raw combined
  value, its range (which is not zero) and the combined score.
\<close>

theorem scores_in_unit_interval:
  assumes "polygonToCells h TEXAS_POLYGON resolution = Inr cells"
  shows "\<exists>surplus temp combined.
           generateTexasHexData h resolution = Inr surplus
         \<and> generateTexasTemperatureData h resolution = Inr temp
         \<and> generateTexasCombinedData h resolution = Inr combined
         \<and> (\<forall>r \<in> set temp. in01 (score r))
         \<and> (rawRange (hexRawScores h cells) \<noteq> Fin 0 \<longrightarrow> (\<forall>r \<in> set surplus. in01 (score r)))
         \<and> (rawRange (hexRawScores h cells) \<noteq> Fin 0 \<and> rawRange (combinedRaw surplus temp) \<noteq> Fin 0
              \<longrightarrow> (\<forall>r \<in> set combined. in01 (score r)))"
proof -
  let ?s = "fst (hexData h cells)" and ?t = "fst (temperaturePass h (seededRandom 99) cells)"
  have t: "\<forall>r \<in> set ?t. in01 (score r)" by (simp add: temperaturePass_in01)
  have s: "rawRange (hexRawScores h cells) \<noteq> Fin 0 \<longrightarrow> (\<forall>r \<in> set ?s. in01 (score r))"
    by (simp add: hexData_in01)
  have c: "rawRange (hexRawScores h cells) \<noteq> Fin 0 \<and> rawRange (combinedRaw ?s ?t) \<noteq> Fin 0
        \<longrightarrow> (\<forall>r \<in> set (combinedCells ?s ?t). in01 (score r))"
  proof (intro impI ballI, elim conjE)
    fix r
    assume 1: "rawRange (hexRawScores h cells) \<noteq> Fin 0"
      and 2: "rawRange (combinedRaw ?s ?t) \<noteq> Fin 0"
      and 3: "r \<in> set (combinedCells ?s ?t)"
    show "in01 (score r)"
    proof (rule combinedCells_in01[OF _ _ _ 2 3])
      show "in01 (score x)" if "x \<in> set ?s" for x using hexData_in01[OF 1 that] .
      show "in01 (score x)" if "x \<in> set ?t" for x using temperaturePass_in01[OF that] .
      show "length ?t = length ?s" by (simp add: hexData_length temperaturePass_length)
    qed
  qed
  from t s c show ?thesis
    by (simp add: generateTexasHexData_Inr[OF assms] generateTexasTemperatureData_Inr[OF assms]
          generateTexasCombinedData_Inr[OF assms])
qed

theorem scores_in_unit_interval_witness:
  "\<exists>surplus temp combined.
       generateTexasHexData houston_panhandle 5 = Inr surplus
     \<and> generateTexasTemperatureData houston_panhandle 5 = Inr temp
     \<and> generateTexasCombinedData houston_panhandle 5 = Inr combined
     \<and> rawRange (hexRawScores houston_panhandle [''H'', ''P'']) \<noteq> Fin 0
     \<and> rawRange (combinedRaw surplus temp) \<noteq> Fin 0
     \<and> list_all (\<lambda>r. in01 (score r)) temp
     \<and> list_all (\<lambda>r. in01 (score r)) surplus
     \<and> list_all (\<lambda>r. in01 (score r)) combined"
proof -
  have tiles: "polygonToCells houston_panhandle TEXAS_POLYGON 5 = Inr [''H'', ''P'']"
    by (rule houston_panhandle_tiles)
  from scores_in_unit_interval[OF tiles] obtain surplus temp combined
    where s: "generateTexasHexData houston_panhandle 5 = Inr surplus"
      and t: "generateTexasTemperatureData houston_panhandle 5 = Inr temp"
      and c: "generateTexasCombinedData houston_panhandle 5 = Inr combined"
      and t01: "\<forall>r \<in> set temp. in01 (score r)"
      and s01: "rawRange (hexRawScores houston_panhandle [''H'', ''P'']) \<noteq> Fin 0
                  \<longrightarrow> (\<forall>r \<in> set surplus. in01 (score r))"
      and c01: "rawRange (hexRawScores houston_panhandle [''H'', ''P'']) \<noteq> Fin 0
                  \<and> rawRange (combinedRaw surplus temp) \<noteq> Fin 0
                  \<longrightarrow> (\<forall>r \<in> set combined. in01 (score r))"
    by blast
  have r1: "rawRange (hexRawScores houston_panhandle [''H'', ''P'']) \<noteq> Fin 0"
    by (rule houston_panhandle_range)
  from s have s_eq: "surplus = fst (hexData houston_panhandle [''H'', ''P''])"
    by (simp add: generateTexasHexData_Inr[OF tiles])
  from t have t_eq: "temp = fst (temperaturePass houston_panhandle (seededRandom 99) [''H'', ''P''])"
    by (simp add: generateTexasTemperatureData_Inr[OF tiles])
  have r2: "rawRange (combinedRaw surplus temp) \<noteq> Fin 0"
    unfolding s_eq t_eq houston_panhandle_combined_range by simp
  from s t c t01 s01 c01 r1 r2 show ?thesis
    unfolding list_all_iff by blast
qed

text \<open>The tiling of a single cell.\<close>

theorem single_cell_score_counterexample:
  "generateTexasHexData single_cell 1 = Inr [\<lparr>h3Index = ''A'', score = NaN, surplusMwh = NaN\<rparr>]
   \<and> generateTexasCombinedData single_cell 1 =
       Inr [\<lparr>h3Index = ''A'', score = NaN, surplusMwh = NaN, combined_cell.tempF = Fin 85\<rparr>]
   \<and> rawRange (combinedRaw [\<lparr>h3Index = ''A'', score = NaN, surplusMwh = NaN\<rparr>]
         [\<lparr>h3Index = ''A'', score = Fin (815305304064559 / 2006751885800500),
           temperature_cell.tempF = Fin 85\<rparr>]) = NaN
   \<and> \<not> in01 NaN"
  by (simp add: single_cell_hex single_cell_temperature generateTexasCombinedData_def
        combineFields_def combinedRaw_def rawRange_def js_min_list_def js_max_list_def js_sub_def)





text \<open>
  C4. For every evaluation point and every source with nonzero radii, the contribution
  computed by \<open>anisotropicGaussian\<close> is
  \<open>w * exp(-((\<Delta>lat\<^sup>2 / (2 \<sigma>Lat\<^sup>2)) + (\<Delta>lng\<^sup>2 / (2 \<sigma>Lng\<^sup>2))))\<close>, and the raw value is the sum
  of the contributions of the supply sources followed by the demand sinks, in list order,
  one formula for weights of either sign. The tables of the program have nonzero radii
  throughout, so the first pass of \<open>generateTexasHexData\<close> yields that sum at every cell.
\<close>

theorem influence_model_formula:
  assumes "\<forall>s \<in> set (supply @ sinks). radLat s \<noteq> 0 \<and> radLng s \<noteq> 0"
  shows "(\<forall>s \<in> set (supply @ sinks).
            anisotropicGaussian pLat pLng s =
              Fin (weight s * exp (- ((pLat - lat s)\<^sup>2 / (2 * (radLat s)\<^sup>2)
                                     + (pLng - lng s)\<^sup>2 / (2 * (radLng s)\<^sup>2)))))
       \<and> rawScore supply sinks pLat pLng =
            Fin (sum_list (map (spec_contribution pLat pLng) (supply @ sinks)))
       \<and> hexRawScores h cells =
            map (\<lambda>c. Fin (sum_list (map (spec_contribution (fst (cellToLatLng h c))
                                                           (snd (cellToLatLng h c)))
                                     (SUPPLY_SOURCES @ DEMAND_SINKS)))) cells"
proof -
  have "anisotropicGaussian pLat pLng s =
          Fin (weight s * exp (- ((pLat - lat s)\<^sup>2 / (2 * (radLat s)\<^sup>2)
                                 + (pLng - lng s)\<^sup>2 / (2 * (radLng s)\<^sup>2))))"
    if "s \<in> set (supply @ sinks)" for s
    using that assms anisotropicGaussian_finite[of s pLat pLng]
    by (simp add: spec_contribution_def)
  moreover have "rawScore supply sinks pLat pLng =
      Fin (sum_list (map (spec_contribution pLat pLng) (supply @ sinks)))"
    by (rule rawScore_finite) (use assms in blast)
  moreover note hexRawScores_finite[of h cells, unfolded rawAt_def]
  ultimately show ?thesis by blast
qed

theorem influence_model_formula_witness:
  "anisotropicGaussian 32 (-96) \<lparr>lat = 32, lng = -97, weight = 1, radLat = 1, radLng = 1\<rparr>
     = Fin (exp (- (1/2)))
   \<and> rawScore [\<lparr>lat = 32, lng = -97, weight = 1, radLat = 1, radLng = 1\<rparr>]
            [\<lparr>lat = 30, lng = -95, weight = -1/2, radLat = 2, radLng = 1\<rparr>] 32 (-96)
     = Fin (exp (- (1/2)) + (-1/2) * exp (- 1))"
  using influence_model_formula[of "[\<lparr>lat = 32, lng = -97, weight = 1, radLat = 1, radLng = 1\<rparr>]"
      "[\<lparr>lat = 30, lng = -95, weight = -1/2, radLat = 2, radLng = 1\<rparr>]" 32 "-96"]
  by (simp add: spec_contribution_def power2_eq_square)



text \<open>
  C6. A raw field of range zero raises no error: the surplus builder divides \<open>0\<close> by
  \<open>0\<close>, returns successfully, and every score it emits is \<open>NaN\<close>; so does the
  normalization of the combined builder.
\<close>

theorem zero_range_yields_NaN:
  "(polygonToCells h TEXAS_POLYGON resolution = Inr cells
      \<and> rawRange (hexRawScores h cells) = Fin 0 \<longrightarrow>
      (\<exists>surplus. generateTexasHexData h resolution = Inr surplus \<and> surplus \<noteq> []
         \<and> (\<forall>r \<in> set surplus. score r = NaN)))
   \<and> (length surplus \<le> length temp \<and> rawRange (combinedRaw surplus temp) = Fin 0 \<longrightarrow>
      (\<exists>combined. combineFields surplus temp = Inr combined \<and> combined \<noteq> []
         \<and> (\<forall>r \<in> set combined. score r = NaN)))"
proof (intro conjI impI; elim conjE)
  assume tiles: "polygonToCells h TEXAS_POLYGON resolution = Inr cells"
    and rg: "rawRange (hexRawScores h cells) = Fin 0"
  from rg have "cells \<noteq> []" by (auto simp: hexRawScores_def rawRange_Nil)
  then have "fst (hexData h cells) \<noteq> []" using hexData_length[of h cells] by auto
  then show "\<exists>surplus. generateTexasHexData h resolution = Inr surplus \<and> surplus \<noteq> []
         \<and> (\<forall>r \<in> set surplus. score r = NaN)"
    using hexData_NaN[OF rg] by (simp add: generateTexasHexData_Inr[OF tiles])
next
  assume len: "length surplus \<le> length temp"
    and rg: "rawRange (combinedRaw surplus temp) = Fin 0"
  from rg have "surplus \<noteq> []" by (auto simp: combinedRaw_def rawRange_Nil)
  then have "combinedCells surplus temp \<noteq> []" using combinedCells_length[of surplus temp] by auto
  then show "\<exists>combined. combineFields surplus temp = Inr combined \<and> combined \<noteq> []
         \<and> (\<forall>r \<in> set combined. score r = NaN)"
    using combinedCells_NaN[OF rg] by (simp add: combineFields_ok[OF len])
qed

theorem zero_range_yields_NaN_witness:
  "(\<exists>surplus. generateTexasHexData single_cell 5 = Inr surplus \<and> surplus \<noteq> []
       \<and> list_all (\<lambda>r. score r = NaN) surplus)
   \<and> (\<exists>combined.
        combineFields [\<lparr>h3Index = ''A'', score = Fin (1/2), surplusMwh = Fin 4000\<rparr>]
                      [\<lparr>h3Index = ''A'', score = Fin (1/4), temperature_cell.tempF = Fin 78\<rparr>]
          = Inr combined
        \<and> combined \<noteq> [] \<and> list_all (\<lambda>r. score r = NaN) combined)"
proof -
  let ?s = "[\<lparr>h3Index = ''A'', score = Fin (1/2), surplusMwh = Fin 4000\<rparr>]"
  let ?t = "[\<lparr>h3Index = ''A'', score = Fin (1/4), temperature_cell.tempF = Fin 78\<rparr>]"
  have 1: "polygonToCells single_cell TEXAS_POLYGON 5 = Inr [''A'']
         \<and> rawRange (hexRawScores single_cell [''A'']) = Fin 0"
    by (simp add: single_cell_tiles single_cell_range)
  have 2: "length ?s \<le> length ?t \<and> rawRange (combinedRaw ?s ?t) = Fin 0"
    by (simp add: combinedRaw_def rawRange_def js_min_list_def js_max_list_def js_sub_def)
  from zero_range_yields_NaN[of single_cell 5 "[''A'']" ?s ?t] 1 2
  show ?thesis unfolding list_all_iff by blast
qed

text \<open>The tiling of a single cell: the range is zero and the build succeeds with a \<open>NaN\<close> score.\<close>

theorem zero_range_counterexample:
  "rawRange (hexRawScores single_cell [''A'']) = Fin 0
   \<and> generateTexasHexData single_cell 5 = Inr [\<lparr>h3Index = ''A'', score = NaN, surplusMwh = NaN\<rparr>]"
  by (simp add: single_cell_hex single_cell_range)




text \<open>
  C8. A source with nonzero radii, evaluated at its own location, contributes exactly its
  weight; alone in the tables it makes the raw value its weight. The source of the
  specification's example yields 1.0.
\<close>

theorem gaussian_at_own_location:
  assumes "radLat s \<noteq> 0" and "radLng s \<noteq> 0"
  shows "anisotropicGaussian (lat s) (lng s) s = Fin (weight s)
       \<and> rawScore [s] [] (lat s) (lng s) = Fin (weight s)"
  using assms by (simp add: gaussian_at_source rawScore_def)

theorem gaussian_at_own_location_witness:
  "anisotropicGaussian 32.0 (-97.0)
       \<lparr>lat = 32.0, lng = -97.0, weight = 1.0, radLat = 1.0, radLng = 1.0\<rparr> = Fin 1.0
   \<and> rawScore [\<lparr>lat = 32.0, lng = -97.0, weight = 1.0, radLat = 1.0, radLng = 1.0\<rparr>] []
        32.0 (-97.0) = Fin 1.0"
  using gaussian_at_own_location
          [of "\<lparr>lat = 32.0, lng = -97.0, weight = 1.0, radLat = 1.0, radLng = 1.0\<rparr>"]
  by simp




text \<open>
  C10. When the tiler answers, the combined builder returns one record per surplus record,
  in the same order and with the same cell identifier; \<open>surplusMwh\<close> is the surplus
  field's and \<open>tempF\<close> the temperature field's at the same position.
\<close>

theorem combined_passes_components_through:
  assumes "polygonToCells h TEXAS_POLYGON resolution = Inr cells"
  shows "\<exists>surplus temp combined.
           generateTexasHexData h resolution = Inr surplus
         \<and> generateTexasTemperatureData h resolution = Inr temp
         \<and> generateTexasCombinedData h resolution = Inr combined
         \<and> length combined = length surplus
         \<and> map h3Index combined = map h3Index surplus
         \<and> map surplusMwh combined = map surplusMwh surplus
         \<and> map combined_cell.tempF combined = map temperature_cell.tempF temp"
  using assms
  by (simp add: generateTexasHexData_Inr generateTexasTemperatureData_Inr
        generateTexasCombinedData_Inr combinedCells_length combinedCells_ids combinedCells_mwh
        combinedCells_tempF hexData_length temperaturePass_length)

theorem combined_passes_components_through_witness:
  "\<exists>surplus temp combined.
       generateTexasHexData houston_panhandle 5 = Inr surplus
     \<and> generateTexasTemperatureData houston_panhandle 5 = Inr temp
     \<and> generateTexasCombinedData houston_panhandle 5 = Inr combined
     \<and> length combined = length surplus
     \<and> map h3Index combined = map h3Index surplus
     \<and> map surplusMwh combined = map surplusMwh surplus
     \<and> map combined_cell.tempF combined = map temperature_cell.tempF temp"
proof -
  have tiles: "polygonToCells houston_panhandle TEXAS_POLYGON 5 = Inr [''H'', ''P'']"
    by (simp add: houston_panhandle_def)
  show ?thesis by (rule combined_passes_components_through[OF tiles])
qed

end
